theory Spec2Isabelle
  imports Complex_Main "HOL-Library.Word"
begin

unbundle bit_operations_syntax

section \<open>The preprocessor's macro table\<close>

text \<open>
  The three headers \<^verbatim>\<open>h-config.h\<close>, \<^verbatim>\<open>h-system.h\<close> and \<^verbatim>\<open>h-define.h\<close> consist of
  preprocessor directives only. Their state is the macro table of the translation unit:
  which names are defined, and with which replacement text. A header is a function from
  the table before it to the table after it.

  An object-like macro \<^verbatim>\<open>#define N text\<close> is \<open>Obj text\<close> (\<open>Obj []\<close> for a bare
  \<^verbatim>\<open>#define N\<close>); a function-like macro \<^verbatim>\<open>#define N(a, b) text\<close> is
  \<open>Fn [a, b] text\<close>. The replacement text is kept as the source writes it.
\<close>

datatype macro = Obj string | Fn "string list" string

type_synonym env = "string \<Rightarrow> macro option"

text \<open>\<^verbatim>\<open>defined(N)\<close>, \<^verbatim>\<open>#ifdef N\<close>; \<^verbatim>\<open>#ifndef N\<close> is its negation.\<close>

definition pp_defined :: "string \<Rightarrow> env \<Rightarrow> bool" where
  "pp_defined n e = (e n \<noteq> None)"

text \<open>
  \<^verbatim>\<open>#define\<close>: the name is bound to the new replacement. Where the name is already
  defined with another replacement, compilers diagnose the redefinition and go on with the
  new one; the table records the new one.
\<close>

definition pp_define :: "string \<Rightarrow> macro \<Rightarrow> env \<Rightarrow> env" where
  "pp_define n m e = e(n \<mapsto> m)"

text \<open>\<^verbatim>\<open>#undef\<close>: the name is removed; removing an undefined name is allowed.\<close>

definition pp_undef :: "string \<Rightarrow> env \<Rightarrow> env" where
  "pp_undef n e = e(n := None)"

text \<open>
  The value of a C string literal given as replacement text: the characters between the
  double quotes, with the escapes \<^verbatim>\<open>\\\<close>, \<^verbatim>\<open>\"\<close> and \<^verbatim>\<open>\'\<close> read as one
  character each. Any other escape, a lone backslash or a quote inside is not read
  (\<open>None\<close>); the headers use none.
\<close>

fun c_unescape :: "string \<Rightarrow> string option" where
  "c_unescape [] = Some []"
| "c_unescape [c] = (if c = CHR 0x5C \<or> c = CHR 0x22 then None else Some [c])"
| "c_unescape (c # d # ds) =
     (if c = CHR 0x5C
      then (if d = CHR 0x5C \<or> d = CHR 0x22 \<or> d = CHR 0x27
            then map_option ((#) d) (c_unescape ds) else None)
      else if c = CHR 0x22 then None
      else map_option ((#) c) (c_unescape (d # ds)))"

definition c_string_literal :: "string \<Rightarrow> string option" where
  "c_string_literal t =
     (if 2 \<le> length t \<and> hd t = CHR 0x22 \<and> last t = CHR 0x22
      then c_unescape (butlast (tl t)) else None)"

section \<open>h-config.h\<close>

text \<open>Lines 19--23: extract the \<^verbatim>\<open>WINDOWS\<close> flag from the compiler.\<close>

definition classify_windows :: "env \<Rightarrow> env" where
  "classify_windows e =
     (if pp_defined ''_WIN32'' e \<or> pp_defined ''WIN32'' e
      then (if \<not> pp_defined ''WINDOWS'' e then pp_define ''WINDOWS'' (Obj []) e else e)
      else e)"

text \<open>Lines 36--38: \<^verbatim>\<open>SET_UID\<close> for the machines that are not \<^verbatim>\<open>WINDOWS\<close>.\<close>

definition derive_set_uid :: "env \<Rightarrow> env" where
  "derive_set_uid e =
     (if \<not> pp_defined ''WINDOWS'' e then pp_define ''SET_UID'' (Obj []) e else e)"

text \<open>Lines 45--46: the Unix slash as the default path separator.\<close>

definition path_sep_default :: "env \<Rightarrow> env" where
  "path_sep_default e =
     pp_define ''PATH_SEP'' (Obj [CHR 0x22, CHR ''/'', CHR 0x22]) (pp_undef ''PATH_SEP'' e)"

text \<open>Lines 47--50: the separator of \<^verbatim>\<open>WINDOWS\<close>, written \<^verbatim>\<open>"\\"\<close> in the source.\<close>

definition path_sep_windows :: "env \<Rightarrow> env" where
  "path_sep_windows e =
     (if pp_defined ''WINDOWS'' e
      then pp_define ''PATH_SEP'' (Obj [CHR 0x22, CHR 0x5C, CHR 0x5C, CHR 0x22])
             (pp_undef ''PATH_SEP'' e)
      else e)"

text \<open>Lines 53--58: the file type markers.\<close>

definition file_type_hack :: "env \<Rightarrow> env" where
  "file_type_hack e =
     (if \<not> pp_defined ''FILE_TYPE_TEXT'' e
      then pp_define ''FILE_TYPE'' (Fn [''X''] [])
             (pp_define ''FILE_TYPE_SAVE'' (Obj [])
               (pp_define ''FILE_TYPE_DATA'' (Obj [])
                 (pp_define ''FILE_TYPE_TEXT'' (Obj []) e)))
      else e)"

text \<open>Lines 67--69: \<^verbatim>\<open>HAVE_USLEEP\<close>, unless \<^verbatim>\<open>configure\<close> was used.\<close>

definition derive_have_usleep :: "env \<Rightarrow> env" where
  "derive_have_usleep e =
     (if pp_defined ''SET_UID'' e \<and> \<not> pp_defined ''HAVE_CONFIG_H'' e
      then pp_define ''HAVE_USLEEP'' (Obj []) e else e)"

text \<open>The header between its include guard (lines 3--4 and 71).\<close>

definition h_config_body :: "env \<Rightarrow> env" where
  "h_config_body e =
     derive_have_usleep (file_type_hack (path_sep_windows (path_sep_default
       (derive_set_uid (classify_windows e)))))"

definition h_config :: "env \<Rightarrow> env" where
  "h_config e =
     (if \<not> pp_defined ''INCLUDED_H_CONFIG_H'' e
      then h_config_body (pp_define ''INCLUDED_H_CONFIG_H'' (Obj []) e)
      else e)"

section \<open>h-system.h\<close>

text \<open>
  \<^verbatim>\<open>#include <h>\<close> of a system header: what the platform's header \<open>h\<close> does to the
  macro table is not part of this layer, so it is a parameter \<open>sys\<close> of the header.
\<close>

type_synonym sys_headers = "string \<Rightarrow> env \<Rightarrow> env"

text \<open>A set of system headers leaves the name \<open>n\<close> alone.\<close>

definition sys_keeps :: "sys_headers \<Rightarrow> string \<Rightarrow> bool" where
  "sys_keeps sys n = (\<forall>h e. sys h e n = e n)"

text \<open>The flags of this layer that \<^verbatim>\<open>h-system.h\<close> tests.\<close>

definition sys_keeps_flags :: "sys_headers \<Rightarrow> bool" where
  "sys_keeps_flags sys =
     (sys_keeps sys ''SET_UID'' \<and> sys_keeps sys ''WINDOWS'' \<and> sys_keeps sys ''_MSC_VER'')"

text \<open>Lines 16--19.\<close>

definition include_basic :: "sys_headers \<Rightarrow> env \<Rightarrow> env" where
  "include_basic sys e =
     sys ''stdlib.h'' (sys ''errno.h'' (sys ''ctype.h'' (sys ''stdio.h'' e)))"

text \<open>Lines 21--31.\<close>

definition include_types :: "sys_headers \<Rightarrow> env \<Rightarrow> env" where
  "include_types sys e =
     (if pp_defined ''SET_UID'' e
      then (let a = sys ''sys/types.h'' e;
                b = (if pp_defined ''__linux__'' a then sys ''sys/time.h'' a else a)
            in sys ''sys/timeb.h'' b)
      else e)"

text \<open>Lines 33--40.\<close>

definition include_time_io :: "sys_headers \<Rightarrow> env \<Rightarrow> env" where
  "include_time_io sys e =
     (let a = sys ''time.h'' e;
          b = (if pp_defined ''WINDOWS'' a then sys ''io.h'' a else a)
      in sys ''fcntl.h'' (sys ''memory.h'' b))"

text \<open>Lines 45--54: the POSIX headers, for every compiler but \<^verbatim>\<open>_MSC_VER\<close>.\<close>

definition include_posix :: "sys_headers \<Rightarrow> env \<Rightarrow> env" where
  "include_posix sys e =
     (let a = sys ''sys/file.h'' (sys ''sys/param.h'' e);
          b = (if pp_defined ''__linux__'' a then sys ''sys/file.h'' a else a)
      in sys ''unistd.h'' (sys ''pwd.h'' b))"

text \<open>Lines 58--62: under \<^verbatim>\<open>_MSC_VER\<close> the build becomes a \<^verbatim>\<open>WINDOWS\<close> one.\<close>

definition demote_to_windows :: "env \<Rightarrow> env" where
  "demote_to_windows e =
     pp_undef ''SET_UID''
       (if \<not> pp_defined ''WINDOWS'' e then pp_define ''WINDOWS'' (Obj []) e else e)"

text \<open>Lines 42--68.\<close>

definition include_set_uid :: "sys_headers \<Rightarrow> env \<Rightarrow> env" where
  "include_set_uid sys e =
     (if pp_defined ''SET_UID'' e
      then sys ''sys/stat.h''
             (if \<not> pp_defined ''_MSC_VER'' e then include_posix sys e
              else demote_to_windows e)
      else e)"

text \<open>The header between its include guard (lines 3--4 and 73); lines 70--71 end it.\<close>

definition h_system_body :: "sys_headers \<Rightarrow> env \<Rightarrow> env" where
  "h_system_body sys e =
     sys ''stdarg.h'' (sys ''string.h''
       (include_set_uid sys (include_time_io sys (include_types sys (include_basic sys e)))))"

definition h_system :: "sys_headers \<Rightarrow> env \<Rightarrow> env" where
  "h_system sys e =
     (if \<not> pp_defined ''INCLUDED_H_SYSTEM_H'' e
      then h_system_body sys (pp_define ''INCLUDED_H_SYSTEM_H'' (Obj []) e)
      else e)"

section \<open>h-define.h\<close>

text \<open>The pattern \<^verbatim>\<open>#ifndef N\<close> / \<^verbatim>\<open>#define N text\<close> / \<^verbatim>\<open>#endif\<close>.\<close>

definition ifndef_define :: "string \<Rightarrow> macro \<Rightarrow> env \<Rightarrow> env" where
  "ifndef_define n m e = (if \<not> pp_defined n e then pp_define n m e else e)"

text \<open>The pattern \<^verbatim>\<open>#undef N\<close> / \<^verbatim>\<open>#define N text\<close>.\<close>

definition undef_define :: "string \<Rightarrow> macro \<Rightarrow> env \<Rightarrow> env" where
  "undef_define n m e = pp_define n m (pp_undef n e)"

text \<open>Lines 13--15.\<close>

definition define_null :: "env \<Rightarrow> env" where
  "define_null e = ifndef_define ''NULL'' (Obj ''((void*)0)'') e"

text \<open>Lines 20--28: the seek modes, see \<^verbatim>\<open>fd_seek()\<close>.\<close>

definition force_seek :: "env \<Rightarrow> env" where
  "force_seek e =
     ifndef_define ''SEEK_END'' (Obj ''2'')
       (ifndef_define ''SEEK_CUR'' (Obj ''1'')
         (ifndef_define ''SEEK_SET'' (Obj ''0'') e))"

text \<open>Lines 33--41: the lock modes, see \<^verbatim>\<open>fd_lock()\<close>.\<close>

definition force_lock :: "env \<Rightarrow> env" where
  "force_lock e =
     ifndef_define ''F_WRLCK'' (Obj ''2'')
       (ifndef_define ''F_RDLCK'' (Obj ''1'')
         (ifndef_define ''F_UNLCK'' (Obj ''0'') e))"

text \<open>Lines 47--51.\<close>

definition define_booleans :: "env \<Rightarrow> env" where
  "define_booleans e =
     undef_define ''FALSE'' (Obj ''0'') (undef_define ''TRUE'' (Obj ''1'') e)"

text \<open>Lines 58--84: the simple macros, as text. Their meaning is given below.\<close>

definition define_simple_macros :: "env \<Rightarrow> env" where
  "define_simple_macros e =
     undef_define ''ORDERED'' (Fn [''a'', ''b'', ''c'']
         ''((((a) <= (b)) && ((b) <= (c))) || (((c) <= (b)) && ((b) <= (a))))'')
       (undef_define ''SGN'' (Fn [''a''] ''(((a) < 0) ? (-1) : ((a) != 0))'')
         (undef_define ''ABS'' (Fn [''a''] ''(((a) < 0) ? (-(a)) : (a))'')
           (undef_define ''MAX'' (Fn [''a'', ''b''] ''(((a) < (b)) ? (b) : (a))'')
             (undef_define ''MIN'' (Fn [''a'', ''b''] ''(((a) > (b)) ? (b) : (a))'') e))))"

text \<open>Lines 94--100: the character macros, as text.\<close>

definition define_char_macros :: "env \<Rightarrow> env" where
  "define_char_macros e =
     pp_define ''ESCAPE'' (Obj ([CHR 0x27, CHR 0x5C] @ ''033'' @ [CHR 0x27]))
       (pp_define ''UN_KTRL'' (Fn [''X''] ''((X) + 64)'')
         (pp_define ''KTRL'' (Fn [''X''] ''((X)&0x1F)'')
           (pp_define ''I2D'' (Fn [''X''] ''((X) + '0')'')
             (pp_define ''D2I'' (Fn [''X''] ''((X) - '0')'')
               (pp_define ''I2A'' (Fn [''X''] ''((X) + 'a')'')
                 (pp_define ''A2I'' (Fn [''X''] ''((X) - 'a')'') e))))))"

text \<open>Lines 111--115.\<close>

definition define_fallthrough :: "env \<Rightarrow> env" where
  "define_fallthrough e =
     (if pp_defined ''__GNUC__'' e
      then pp_define ''FALLTHROUGH'' (Obj ''__attribute__((fallthrough))'') e
      else pp_define ''FALLTHROUGH'' (Obj []) e)"

text \<open>The header between its include guard (lines 3--4 and 117).\<close>

definition h_define_body :: "env \<Rightarrow> env" where
  "h_define_body e =
     define_fallthrough (define_char_macros (define_simple_macros (define_booleans
       (force_lock (force_seek (define_null e))))))"

definition h_define :: "env \<Rightarrow> env" where
  "h_define e =
     (if \<not> pp_defined ''INCLUDED_H_DEFINE_H'' e
      then h_define_body (pp_define ''INCLUDED_H_DEFINE_H'' (Obj []) e)
      else e)"

section \<open>The simple macros of h-define.h as operations\<close>

text \<open>
  The macros are untyped: an expansion works on whatever arithmetic types its operands
  have, and C converts the operands of each operator to a common type first. The
  operands are modelled at C's \<^verbatim>\<open>int\<close> and \<^verbatim>\<open>unsigned int\<close>, 32 bits wide, in two's
  complement. An operand of a narrower integer type is promoted to \<^verbatim>\<open>int\<close> before any
  operator applies and so appears as an \<^verbatim>\<open>int\<close>; operands of wider integer types and of
  floating types are not modelled.
\<close>

datatype cnum = CInt "32 word" | CUInt "32 word"

text \<open>The number an operand stands for, its bits, and its signedness.\<close>

fun c_val :: "cnum \<Rightarrow> int" where
  "c_val (CInt w) = sint w"
| "c_val (CUInt w) = uint w"

fun c_bits :: "cnum \<Rightarrow> 32 word" where
  "c_bits (CInt w) = w"
| "c_bits (CUInt w) = w"

fun c_unsigned :: "cnum \<Rightarrow> bool" where
  "c_unsigned (CInt w) = False"
| "c_unsigned (CUInt w) = True"

text \<open>
  The usual arithmetic conversions: where one operand of an operator is
  \<^verbatim>\<open>unsigned int\<close> and the other \<^verbatim>\<open>int\<close>, the \<^verbatim>\<open>int\<close> is converted to
  \<^verbatim>\<open>unsigned int\<close>, which keeps its bits. \<open>c_common a b x\<close> is \<open>x\<close> at the common type
  of \<open>a\<close> and \<open>b\<close>.
\<close>

definition c_common :: "cnum \<Rightarrow> cnum \<Rightarrow> cnum \<Rightarrow> cnum" where
  "c_common a b x = (if c_unsigned a \<or> c_unsigned b then CUInt (c_bits x) else x)"

text \<open>The comparisons \<^verbatim>\<open><\<close>, \<^verbatim>\<open>>\<close>, \<^verbatim>\<open><=\<close> and \<^verbatim>\<open>!=\<close>, at the common type.\<close>

definition c_lt :: "cnum \<Rightarrow> cnum \<Rightarrow> bool" where
  "c_lt a b = (if c_unsigned a \<or> c_unsigned b then c_bits a < c_bits b
               else sint (c_bits a) < sint (c_bits b))"

definition c_gt :: "cnum \<Rightarrow> cnum \<Rightarrow> bool" where
  "c_gt a b = (if c_unsigned a \<or> c_unsigned b then c_bits a > c_bits b
               else sint (c_bits a) > sint (c_bits b))"


definition c_ne :: "cnum \<Rightarrow> cnum \<Rightarrow> bool" where
  "c_ne a b = (c_bits a \<noteq> c_bits b)"

text \<open>
  Unary \<^verbatim>\<open>-\<close>. On \<^verbatim>\<open>unsigned int\<close> it is taken modulo \<open>2 ^ 32\<close>. On \<^verbatim>\<open>int\<close> the
  negation of the least value overflows; the two's complement machines this code is
  built for give the least value back, and so does the model.
\<close>

fun c_neg :: "cnum \<Rightarrow> cnum" where
  "c_neg (CInt w) = CInt (- w)"
| "c_neg (CUInt w) = CUInt (- w)"

text \<open>A comparison and \<^verbatim>\<open>&&\<close>, \<^verbatim>\<open>||\<close>, \<^verbatim>\<open>!=\<close> yield the \<^verbatim>\<open>int\<close> 1 or 0.\<close>

definition c_truth :: "bool \<Rightarrow> cnum" where
  "c_truth p = CInt (if p then 1 else 0)"

text \<open>\<^verbatim>\<open>p ? x : y\<close>: the chosen operand, at the common type of \<open>x\<close> and \<open>y\<close>.\<close>

definition c_cond :: "bool \<Rightarrow> cnum \<Rightarrow> cnum \<Rightarrow> cnum" where
  "c_cond p x y = c_common x y (if p then x else y)"

definition MIN_macro :: "cnum \<Rightarrow> cnum \<Rightarrow> cnum" where
  "MIN_macro a b = c_cond (c_gt a b) b a"

definition MAX_macro :: "cnum \<Rightarrow> cnum \<Rightarrow> cnum" where
  "MAX_macro a b = c_cond (c_lt a b) b a"

definition ABS :: "cnum \<Rightarrow> cnum" where
  "ABS a = c_cond (c_lt a (CInt 0)) (c_neg a) a"

definition SGN :: "cnum \<Rightarrow> cnum" where
  "SGN a = c_cond (c_lt a (CInt 0)) (CInt (- 1)) (c_truth (c_ne a (CInt 0)))"



text \<open>
  The expansions of \<^verbatim>\<open>ABS\<close> and \<^verbatim>\<open>SGN\<close> read in exact integer arithmetic, where no
  operation overflows.
\<close>

definition ABS_exact :: "int \<Rightarrow> int" where
  "ABS_exact a = (if a < 0 then - a else a)"

definition SGN_exact :: "int \<Rightarrow> int" where
  "SGN_exact a = (if a < 0 then - 1 else (if a \<noteq> 0 then 1 else 0))"

text \<open>
  The character macros work on character codes: a character constant is an \<^verbatim>\<open>int\<close>
  in C, here the code of the character in ASCII.
\<close>

definition A2I :: "int \<Rightarrow> int" where
  "A2I X = X - of_char (CHR ''a'')"

definition I2A :: "int \<Rightarrow> int" where
  "I2A X = X + of_char (CHR ''a'')"

definition D2I :: "int \<Rightarrow> int" where
  "D2I X = X - of_char (CHR ''0'')"

definition I2D :: "int \<Rightarrow> int" where
  "I2D X = X + of_char (CHR ''0'')"

definition KTRL :: "int \<Rightarrow> int" where
  "KTRL X = X AND 0x1F"

definition UN_KTRL :: "int \<Rightarrow> int" where
  "UN_KTRL X = X + 64"

definition ESCAPE :: int where
  "ESCAPE = 27"

section \<open>Builds used as examples\<close>

text \<open>No system header touches the macro table.\<close>

definition sys_silent :: sys_headers where
  "sys_silent h e = e"

text \<open>
  The Linux headers as far as this layer reads them: \<^verbatim>\<open>stdio.h\<close> brings the seek
  modes, \<^verbatim>\<open>fcntl.h\<close> the lock modes with Linux's own numbers.
\<close>

definition sys_linux :: sys_headers where
  "sys_linux h e =
     (if h = ''stdio.h''
      then pp_define ''SEEK_END'' (Obj ''2'') (pp_define ''SEEK_CUR'' (Obj ''1'')
             (pp_define ''SEEK_SET'' (Obj ''0'') e))
      else if h = ''fcntl.h''
      then pp_define ''F_UNLCK'' (Obj ''2'') (pp_define ''F_WRLCK'' (Obj ''1'')
             (pp_define ''F_RDLCK'' (Obj ''0'') e))
      else e)"

text \<open>A compiler for Linux, no option given.\<close>

definition build_linux :: env where
  "build_linux = Map.empty(''__linux__'' \<mapsto> Obj ''1'', ''__GNUC__'' \<mapsto> Obj ''13'')"

text \<open>The Microsoft compiler, no option given.\<close>

definition build_msvc :: env where
  "build_msvc = Map.empty(''_WIN32'' \<mapsto> Obj ''1'', ''_MSC_VER'' \<mapsto> Obj ''1929'')"

text \<open>A GNU compiler for Windows, called with \<^verbatim>\<open>-DSET_UID\<close>.\<close>

definition build_mingw_set_uid :: env where
  "build_mingw_set_uid =
     Map.empty(''_WIN32'' \<mapsto> Obj ''1'', ''__GNUC__'' \<mapsto> Obj ''13'', ''SET_UID'' \<mapsto> Obj ''1'')"

text \<open>The Microsoft compiler, called with \<^verbatim>\<open>-DSET_UID\<close>.\<close>

definition build_msvc_set_uid :: env where
  "build_msvc_set_uid =
     Map.empty(''_WIN32'' \<mapsto> Obj ''1'', ''_MSC_VER'' \<mapsto> Obj ''1929'', ''SET_UID'' \<mapsto> Obj ''1'')"

text \<open>A Linux compiler, called with \<^verbatim>\<open>-DSET_UID\<close>.\<close>

definition build_linux_set_uid :: env where
  "build_linux_set_uid =
     Map.empty(''__linux__'' \<mapsto> Obj ''1'', ''__GNUC__'' \<mapsto> Obj ''13'', ''SET_UID'' \<mapsto> Obj ''1'')"

section \<open>Facts about the segments of the headers\<close>

lemmas pp_defs = pp_defined_def pp_define_def pp_undef_def

subsection \<open>h-system.h: system headers that leave a name alone\<close>

lemma sys_keeps_apply: "sys_keeps sys n \<Longrightarrow> sys h e n = e n"
  by (simp add: sys_keeps_def)

lemma include_basic_keeps: "sys_keeps sys n \<Longrightarrow> include_basic sys e n = e n"
  by (simp add: include_basic_def sys_keeps_apply)

lemma include_types_keeps: "sys_keeps sys n \<Longrightarrow> include_types sys e n = e n"
  by (simp add: include_types_def Let_def sys_keeps_apply)

lemma include_time_io_keeps: "sys_keeps sys n \<Longrightarrow> include_time_io sys e n = e n"
  by (simp add: include_time_io_def Let_def sys_keeps_apply)

lemma include_posix_keeps: "sys_keeps sys n \<Longrightarrow> include_posix sys e n = e n"
  by (simp add: include_posix_def Let_def sys_keeps_apply)

lemma include_prefix_keeps:
  "sys_keeps sys n \<Longrightarrow> include_time_io sys (include_types sys (include_basic sys e)) n = e n"
  by (simp add: include_time_io_keeps include_types_keeps include_basic_keeps)

lemma include_set_uid_SET_UID:
  "sys_keeps sys ''SET_UID'' \<Longrightarrow>
   include_set_uid sys e ''SET_UID'' =
     (if pp_defined ''SET_UID'' e \<and> pp_defined ''_MSC_VER'' e then None else e ''SET_UID'')"
  by (simp add: include_set_uid_def demote_to_windows_def pp_defs sys_keeps_apply
      include_posix_keeps)

lemma include_set_uid_WINDOWS:
  "sys_keeps sys ''WINDOWS'' \<Longrightarrow>
   include_set_uid sys e ''WINDOWS'' =
     (if pp_defined ''SET_UID'' e \<and> pp_defined ''_MSC_VER'' e \<and> \<not> pp_defined ''WINDOWS'' e
      then Some (Obj []) else e ''WINDOWS'')"
  by (simp add: include_set_uid_def demote_to_windows_def pp_defs sys_keeps_apply
      include_posix_keeps)

lemma h_system_body_SET_UID:
  assumes "sys_keeps_flags sys"
  shows "h_system_body sys e ''SET_UID'' =
     (if pp_defined ''SET_UID'' e \<and> pp_defined ''_MSC_VER'' e then None else e ''SET_UID'')"
proof -
  from assms have k: "sys_keeps sys ''SET_UID''" "sys_keeps sys ''_MSC_VER''"
    by (simp_all add: sys_keeps_flags_def)
  let ?p = "include_time_io sys (include_types sys (include_basic sys e))"
  have "h_system_body sys e ''SET_UID'' = include_set_uid sys ?p ''SET_UID''"
    by (simp add: h_system_body_def sys_keeps_apply [OF k(1)])
  also have "\<dots> = (if pp_defined ''SET_UID'' ?p \<and> pp_defined ''_MSC_VER'' ?p then None
                   else ?p ''SET_UID'')"
    by (rule include_set_uid_SET_UID [OF k(1)])
  also have "\<dots> = (if pp_defined ''SET_UID'' e \<and> pp_defined ''_MSC_VER'' e then None
                   else e ''SET_UID'')"
    by (simp add: pp_defined_def include_prefix_keeps k)
  finally show ?thesis .
qed

lemma h_system_body_WINDOWS:
  assumes "sys_keeps_flags sys"
  shows "h_system_body sys e ''WINDOWS'' =
     (if pp_defined ''SET_UID'' e \<and> pp_defined ''_MSC_VER'' e \<and> \<not> pp_defined ''WINDOWS'' e
      then Some (Obj []) else e ''WINDOWS'')"
proof -
  from assms have k: "sys_keeps sys ''SET_UID''" "sys_keeps sys ''_MSC_VER''"
      "sys_keeps sys ''WINDOWS''"
    by (simp_all add: sys_keeps_flags_def)
  let ?p = "include_time_io sys (include_types sys (include_basic sys e))"
  have "h_system_body sys e ''WINDOWS'' = include_set_uid sys ?p ''WINDOWS''"
    by (simp add: h_system_body_def sys_keeps_apply [OF k(3)])
  also have "\<dots> = (if pp_defined ''SET_UID'' ?p \<and> pp_defined ''_MSC_VER'' ?p
                        \<and> \<not> pp_defined ''WINDOWS'' ?p
                   then Some (Obj []) else ?p ''WINDOWS'')"
    by (rule include_set_uid_WINDOWS [OF k(3)])
  also have "\<dots> = (if pp_defined ''SET_UID'' e \<and> pp_defined ''_MSC_VER'' e
                        \<and> \<not> pp_defined ''WINDOWS'' e
                   then Some (Obj []) else e ''WINDOWS'')"
    by (simp add: pp_defined_def include_prefix_keeps k)
  finally show ?thesis .
qed

subsection \<open>h-config.h: the names a segment does not touch, and the flags\<close>

lemma classify_windows_other: "n \<noteq> ''WINDOWS'' \<Longrightarrow> classify_windows e n = e n"
  by (simp add: classify_windows_def pp_define_def)

lemma derive_set_uid_other: "n \<noteq> ''SET_UID'' \<Longrightarrow> derive_set_uid e n = e n"
  by (simp add: derive_set_uid_def pp_define_def)

lemma path_sep_default_other: "n \<noteq> ''PATH_SEP'' \<Longrightarrow> path_sep_default e n = e n"
  by (simp add: path_sep_default_def pp_define_def pp_undef_def)

lemma path_sep_windows_other: "n \<noteq> ''PATH_SEP'' \<Longrightarrow> path_sep_windows e n = e n"
  by (simp add: path_sep_windows_def pp_define_def pp_undef_def)

lemma file_type_hack_other:
  "n \<noteq> ''FILE_TYPE'' \<Longrightarrow> n \<noteq> ''FILE_TYPE_SAVE'' \<Longrightarrow> n \<noteq> ''FILE_TYPE_DATA'' \<Longrightarrow>
   n \<noteq> ''FILE_TYPE_TEXT'' \<Longrightarrow> file_type_hack e n = e n"
  by (simp add: file_type_hack_def pp_define_def)

lemma derive_have_usleep_other: "n \<noteq> ''HAVE_USLEEP'' \<Longrightarrow> derive_have_usleep e n = e n"
  by (simp add: derive_have_usleep_def pp_define_def)

lemma h_config_body_WINDOWS:
  "h_config_body e ''WINDOWS'' = classify_windows e ''WINDOWS''"
  by (simp add: h_config_body_def derive_have_usleep_other file_type_hack_other
      path_sep_windows_other path_sep_default_other derive_set_uid_other)

lemma h_config_body_SET_UID:
  "h_config_body e ''SET_UID'' =
     (if pp_defined ''WINDOWS'' (classify_windows e) then e ''SET_UID'' else Some (Obj []))"
proof -
  have "h_config_body e ''SET_UID'' = derive_set_uid (classify_windows e) ''SET_UID''"
    by (simp add: h_config_body_def derive_have_usleep_other file_type_hack_other
      path_sep_windows_other path_sep_default_other)
  also have "\<dots> = (if pp_defined ''WINDOWS'' (classify_windows e)
                   then classify_windows e ''SET_UID'' else Some (Obj []))"
    by (simp add: derive_set_uid_def pp_define_def)
  finally show ?thesis
    by (simp add: classify_windows_other)
qed

lemma h_config_first:
  "\<not> pp_defined ''INCLUDED_H_CONFIG_H'' e \<Longrightarrow>
   h_config e = h_config_body (pp_define ''INCLUDED_H_CONFIG_H'' (Obj []) e)"
  by (simp add: h_config_def)

lemma h_config_body_PATH_SEP:
  "h_config_body e ''PATH_SEP'' =
     Some (Obj (if pp_defined ''WINDOWS'' (h_config_body e)
                then [CHR 0x22, CHR 0x5C, CHR 0x5C, CHR 0x22]
                else [CHR 0x22, CHR ''/'', CHR 0x22]))"
proof -
  let ?x = "derive_set_uid (classify_windows e)"
  have w: "pp_defined ''WINDOWS'' (path_sep_default ?x) = pp_defined ''WINDOWS'' (h_config_body e)"
    by (simp add: pp_defined_def h_config_body_WINDOWS path_sep_default_other
        derive_set_uid_other)
  have "h_config_body e ''PATH_SEP'' = path_sep_windows (path_sep_default ?x) ''PATH_SEP''"
    by (simp add: h_config_body_def derive_have_usleep_other file_type_hack_other)
  also have "\<dots> = Some (Obj (if pp_defined ''WINDOWS'' (path_sep_default ?x)
                then [CHR 0x22, CHR 0x5C, CHR 0x5C, CHR 0x22]
                else [CHR 0x22, CHR ''/'', CHR 0x22]))"
    by (simp add: path_sep_windows_def path_sep_default_def pp_define_def pp_undef_def)
  finally show ?thesis
    by (simp only: w)
qed

lemma h_config_body_HAVE_USLEEP:
  "h_config_body e ''HAVE_USLEEP'' =
     (if pp_defined ''SET_UID'' (h_config_body e) \<and> \<not> pp_defined ''HAVE_CONFIG_H'' e
      then Some (Obj []) else e ''HAVE_USLEEP'')"
proof -
  let ?y = "file_type_hack (path_sep_windows (path_sep_default
       (derive_set_uid (classify_windows e))))"
  have s: "pp_defined ''SET_UID'' ?y = pp_defined ''SET_UID'' (h_config_body e)"
    by (simp add: pp_defined_def h_config_body_def derive_have_usleep_other)
  have c: "pp_defined ''HAVE_CONFIG_H'' ?y = pp_defined ''HAVE_CONFIG_H'' e"
    by (simp add: pp_defined_def file_type_hack_other path_sep_windows_other
        path_sep_default_other derive_set_uid_other classify_windows_other)
  have u: "?y ''HAVE_USLEEP'' = e ''HAVE_USLEEP''"
    by (simp add: file_type_hack_other path_sep_windows_other
        path_sep_default_other derive_set_uid_other classify_windows_other)
  have "h_config_body e ''HAVE_USLEEP'' =
      (if pp_defined ''SET_UID'' ?y \<and> \<not> pp_defined ''HAVE_CONFIG_H'' ?y
       then Some (Obj []) else ?y ''HAVE_USLEEP'')"
    unfolding h_config_body_def
    by (simp add: derive_have_usleep_def [of ?y] pp_define_def)
  then show ?thesis
    by (simp only: s c u)
qed

lemma h_config_body_HAVE_CONFIG_H: "h_config_body e ''HAVE_CONFIG_H'' = e ''HAVE_CONFIG_H''"
  by (simp add: h_config_body_def derive_have_usleep_other file_type_hack_other
      path_sep_windows_other path_sep_default_other derive_set_uid_other classify_windows_other)

lemma h_system_preserves:
  assumes "sys_keeps_flags sys"
    and "pp_defined ''SET_UID'' e \<longleftrightarrow> \<not> pp_defined ''WINDOWS'' e"
  shows "pp_defined ''SET_UID'' (h_system sys e) \<longleftrightarrow> \<not> pp_defined ''WINDOWS'' (h_system sys e)"
proof (cases "pp_defined ''INCLUDED_H_SYSTEM_H'' e")
  case True
  with assms(2) show ?thesis by (simp add: h_system_def)
next
  case False
  let ?g = "pp_define ''INCLUDED_H_SYSTEM_H'' (Obj []) e"
  have g: "?g ''SET_UID'' = e ''SET_UID''" "?g ''WINDOWS'' = e ''WINDOWS''"
    "?g ''_MSC_VER'' = e ''_MSC_VER''"
    by (simp_all add: pp_define_def)
  from False have "h_system sys e = h_system_body sys ?g"
    by (simp add: h_system_def)
  with assms(2) show ?thesis
    by (simp add: pp_defined_def h_system_body_SET_UID [OF assms(1)]
        h_system_body_WINDOWS [OF assms(1)] g)
qed

subsection \<open>The headers on their first reading, and the example builds\<close>

lemma sys_silent_keeps: "sys_keeps sys_silent n"
  by (simp add: sys_keeps_def sys_silent_def)

lemma sys_linux_keeps:
  "n \<notin> {''SEEK_SET'', ''SEEK_CUR'', ''SEEK_END'', ''F_RDLCK'', ''F_WRLCK'', ''F_UNLCK''} \<Longrightarrow>
   sys_keeps sys_linux n"
  by (simp add: sys_keeps_def sys_linux_def pp_define_def)

lemma sys_silent_keeps_flags: "sys_keeps_flags sys_silent"
  by (simp add: sys_keeps_flags_def sys_silent_keeps)

lemma sys_linux_keeps_flags: "sys_keeps_flags sys_linux"
  by (simp add: sys_keeps_flags_def sys_linux_keeps)

lemma h_config_SET_UID:
  "\<not> pp_defined ''INCLUDED_H_CONFIG_H'' e \<Longrightarrow>
   h_config e ''SET_UID'' =
     (if pp_defined ''WINDOWS'' (h_config e) then e ''SET_UID'' else Some (Obj []))"
  by (simp add: h_config_first h_config_body_SET_UID h_config_body_WINDOWS pp_defined_def
      pp_define_def)

lemma h_config_WINDOWS:
  "\<not> pp_defined ''INCLUDED_H_CONFIG_H'' e \<Longrightarrow>
   h_config e ''WINDOWS'' =
     (if (pp_defined ''_WIN32'' e \<or> pp_defined ''WIN32'' e) \<and> \<not> pp_defined ''WINDOWS'' e
      then Some (Obj []) else e ''WINDOWS'')"
  by (simp add: h_config_first h_config_body_WINDOWS classify_windows_def pp_defined_def
      pp_define_def)

lemma h_config_other:
  "n \<notin> {''INCLUDED_H_CONFIG_H'', ''WINDOWS'', ''SET_UID'', ''PATH_SEP'', ''FILE_TYPE'',
         ''FILE_TYPE_SAVE'', ''FILE_TYPE_DATA'', ''FILE_TYPE_TEXT'', ''HAVE_USLEEP''} \<Longrightarrow>
   h_config e n = e n"
  by (simp add: h_config_def h_config_body_def derive_have_usleep_other file_type_hack_other
      path_sep_windows_other path_sep_default_other derive_set_uid_other classify_windows_other
      pp_define_def)

lemma h_system_SET_UID:
  "sys_keeps_flags sys \<Longrightarrow> \<not> pp_defined ''INCLUDED_H_SYSTEM_H'' e \<Longrightarrow>
   h_system sys e ''SET_UID'' =
     (if pp_defined ''SET_UID'' e \<and> pp_defined ''_MSC_VER'' e then None else e ''SET_UID'')"
  by (simp add: h_system_def h_system_body_SET_UID pp_defined_def pp_define_def)

lemma h_system_WINDOWS:
  "sys_keeps_flags sys \<Longrightarrow> \<not> pp_defined ''INCLUDED_H_SYSTEM_H'' e \<Longrightarrow>
   h_system sys e ''WINDOWS'' =
     (if pp_defined ''SET_UID'' e \<and> pp_defined ''_MSC_VER'' e \<and> \<not> pp_defined ''WINDOWS'' e
      then Some (Obj []) else e ''WINDOWS'')"
  by (simp add: h_system_def h_system_body_WINDOWS pp_defined_def pp_define_def)

text \<open>What the example builds define.\<close>

lemma build_msvc_simps:
  "build_msvc ''_WIN32'' = Some (Obj ''1'')" "build_msvc ''_MSC_VER'' = Some (Obj ''1929'')"
  "n \<noteq> ''_WIN32'' \<Longrightarrow> n \<noteq> ''_MSC_VER'' \<Longrightarrow> build_msvc n = None"
  by (simp_all add: build_msvc_def)

lemma build_linux_simps:
  "build_linux ''__linux__'' = Some (Obj ''1'')" "build_linux ''__GNUC__'' = Some (Obj ''13'')"
  "n \<noteq> ''__linux__'' \<Longrightarrow> n \<noteq> ''__GNUC__'' \<Longrightarrow> build_linux n = None"
  by (simp_all add: build_linux_def)

lemma build_mingw_set_uid_simps:
  "build_mingw_set_uid ''_WIN32'' = Some (Obj ''1'')"
  "build_mingw_set_uid ''__GNUC__'' = Some (Obj ''13'')"
  "build_mingw_set_uid ''SET_UID'' = Some (Obj ''1'')"
  "n \<noteq> ''_WIN32'' \<Longrightarrow> n \<noteq> ''__GNUC__'' \<Longrightarrow> n \<noteq> ''SET_UID'' \<Longrightarrow> build_mingw_set_uid n = None"
  by (simp_all add: build_mingw_set_uid_def)

lemma build_msvc_set_uid_simps:
  "build_msvc_set_uid ''_WIN32'' = Some (Obj ''1'')"
  "build_msvc_set_uid ''_MSC_VER'' = Some (Obj ''1929'')"
  "build_msvc_set_uid ''SET_UID'' = Some (Obj ''1'')"
  "n \<noteq> ''_WIN32'' \<Longrightarrow> n \<noteq> ''_MSC_VER'' \<Longrightarrow> n \<noteq> ''SET_UID'' \<Longrightarrow> build_msvc_set_uid n = None"
  by (simp_all add: build_msvc_set_uid_def)

lemma build_linux_set_uid_simps:
  "build_linux_set_uid ''__linux__'' = Some (Obj ''1'')"
  "build_linux_set_uid ''__GNUC__'' = Some (Obj ''13'')"
  "build_linux_set_uid ''SET_UID'' = Some (Obj ''1'')"
  "n \<noteq> ''__linux__'' \<Longrightarrow> n \<noteq> ''__GNUC__'' \<Longrightarrow> n \<noteq> ''SET_UID'' \<Longrightarrow> build_linux_set_uid n = None"
  by (simp_all add: build_linux_set_uid_def)

lemma h_config_defined_SET_UID:
  assumes "\<not> pp_defined ''INCLUDED_H_CONFIG_H'' e"
  shows "pp_defined ''SET_UID'' (h_config e) \<longleftrightarrow>
           \<not> pp_defined ''WINDOWS'' (h_config e) \<or> pp_defined ''SET_UID'' e"
  using assms by (auto simp add: h_config_SET_UID pp_defined_def)

lemma h_system_defined_flags:
  assumes "sys_keeps_flags sys" and "\<not> pp_defined ''INCLUDED_H_SYSTEM_H'' c"
  shows "pp_defined ''SET_UID'' (h_system sys c) \<longleftrightarrow>
           pp_defined ''SET_UID'' c \<and> \<not> pp_defined ''_MSC_VER'' c"
    and "pp_defined ''WINDOWS'' (h_system sys c) \<longleftrightarrow>
           pp_defined ''WINDOWS'' c \<or> (pp_defined ''SET_UID'' c \<and> pp_defined ''_MSC_VER'' c)"
  using assms by (simp_all add: h_system_SET_UID h_system_WINDOWS pp_defined_def)

lemmas h_flag_simps = h_config_SET_UID h_config_WINDOWS h_config_other
  h_system_SET_UID h_system_WINDOWS pp_defined_def

subsection \<open>h-define.h: the fallback constants\<close>

lemma ifndef_define_other: "n \<noteq> k \<Longrightarrow> ifndef_define k m e n = e n"
  by (simp add: ifndef_define_def pp_define_def)

lemma undef_define_other: "n \<noteq> k \<Longrightarrow> undef_define k m e n = e n"
  by (simp add: undef_define_def pp_define_def pp_undef_def)

lemma define_null_other: "n \<noteq> ''NULL'' \<Longrightarrow> define_null e n = e n"
  by (simp add: define_null_def ifndef_define_other)

lemma define_booleans_other: "n \<noteq> ''TRUE'' \<Longrightarrow> n \<noteq> ''FALSE'' \<Longrightarrow> define_booleans e n = e n"
  by (simp add: define_booleans_def undef_define_other)

lemma define_simple_macros_other:
  "n \<notin> {''MIN'', ''MAX'', ''ABS'', ''SGN'', ''ORDERED''} \<Longrightarrow> define_simple_macros e n = e n"
  by (simp add: define_simple_macros_def undef_define_other)

lemma define_char_macros_other:
  "n \<notin> {''A2I'', ''I2A'', ''D2I'', ''I2D'', ''KTRL'', ''UN_KTRL'', ''ESCAPE''} \<Longrightarrow>
   define_char_macros e n = e n"
  by (simp add: define_char_macros_def pp_define_def)

lemma define_fallthrough_other: "n \<noteq> ''FALLTHROUGH'' \<Longrightarrow> define_fallthrough e n = e n"
  by (simp add: define_fallthrough_def pp_define_def)

lemma ifndef_define_lookup:
  "ifndef_define k m e n = (if n = k \<and> e k = None then Some m else e n)"
  by (simp add: ifndef_define_def pp_define_def pp_defined_def)

lemma force_seek_lock_each:
  "force_lock (force_seek e) ''SEEK_SET'' =
     (if pp_defined ''SEEK_SET'' e then e ''SEEK_SET'' else Some (Obj ''0''))"
  "force_lock (force_seek e) ''SEEK_CUR'' =
     (if pp_defined ''SEEK_CUR'' e then e ''SEEK_CUR'' else Some (Obj ''1''))"
  "force_lock (force_seek e) ''SEEK_END'' =
     (if pp_defined ''SEEK_END'' e then e ''SEEK_END'' else Some (Obj ''2''))"
  "force_lock (force_seek e) ''F_UNLCK'' =
     (if pp_defined ''F_UNLCK'' e then e ''F_UNLCK'' else Some (Obj ''0''))"
  "force_lock (force_seek e) ''F_RDLCK'' =
     (if pp_defined ''F_RDLCK'' e then e ''F_RDLCK'' else Some (Obj ''1''))"
  "force_lock (force_seek e) ''F_WRLCK'' =
     (if pp_defined ''F_WRLCK'' e then e ''F_WRLCK'' else Some (Obj ''2''))"
  by (simp_all add: force_lock_def force_seek_def ifndef_define_lookup pp_defined_def)

lemma h_define_body_after_null:
  "n \<noteq> ''TRUE'' \<Longrightarrow> n \<noteq> ''FALSE'' \<Longrightarrow>
   n \<notin> {''MIN'', ''MAX'', ''ABS'', ''SGN'', ''ORDERED''} \<Longrightarrow>
   n \<notin> {''A2I'', ''I2A'', ''D2I'', ''I2D'', ''KTRL'', ''UN_KTRL'', ''ESCAPE''} \<Longrightarrow>
   n \<noteq> ''FALLTHROUGH'' \<Longrightarrow>
   h_define_body e n = force_lock (force_seek (define_null e)) n"
  unfolding h_define_body_def
  by (simp add: define_fallthrough_other define_char_macros_other
      define_simple_macros_other define_booleans_other)

lemma h_define_body_each:
  "h_define_body e ''SEEK_SET'' =
     (if pp_defined ''SEEK_SET'' e then e ''SEEK_SET'' else Some (Obj ''0''))"
  "h_define_body e ''SEEK_CUR'' =
     (if pp_defined ''SEEK_CUR'' e then e ''SEEK_CUR'' else Some (Obj ''1''))"
  "h_define_body e ''SEEK_END'' =
     (if pp_defined ''SEEK_END'' e then e ''SEEK_END'' else Some (Obj ''2''))"
  "h_define_body e ''F_UNLCK'' =
     (if pp_defined ''F_UNLCK'' e then e ''F_UNLCK'' else Some (Obj ''0''))"
  "h_define_body e ''F_RDLCK'' =
     (if pp_defined ''F_RDLCK'' e then e ''F_RDLCK'' else Some (Obj ''1''))"
  "h_define_body e ''F_WRLCK'' =
     (if pp_defined ''F_WRLCK'' e then e ''F_WRLCK'' else Some (Obj ''2''))"
  by (simp_all add: h_define_body_after_null force_seek_lock_each pp_defined_def
      define_null_other)

lemma h_define_body_guard:
  "h_define_body e ''INCLUDED_H_DEFINE_H'' = e ''INCLUDED_H_DEFINE_H''"
  by (simp add: h_define_body_def define_fallthrough_other define_char_macros_other
      define_simple_macros_other define_booleans_other force_lock_def force_seek_def
      ifndef_define_other define_null_other)

lemma h_define_idem: "h_define (h_define e) = h_define e"
  by (simp add: h_define_def pp_defined_def h_define_body_guard pp_define_def)

lemma fallback_each:
  assumes g: "n \<noteq> ''INCLUDED_H_DEFINE_H''"
    and b: "\<And>e. h_define_body e n = (if pp_defined n e then e n else Some (Obj v))"
    and f: "\<And>e. force_lock (force_seek e) n = (if pp_defined n e then e n else Some (Obj v))"
  shows "(pp_defined n e \<longrightarrow> h_define e n = e n)
     \<and> (\<not> pp_defined n e \<and> \<not> pp_defined ''INCLUDED_H_DEFINE_H'' e \<longrightarrow>
          h_define e n = Some (Obj v))
     \<and> (h_define e n \<noteq> e n \<longrightarrow> \<not> pp_defined n e \<and> h_define e n = Some (Obj v))
     \<and> h_define (h_define e) n = h_define e n
     \<and> force_lock (force_seek (force_lock (force_seek e))) n = force_lock (force_seek e) n"
proof -
  let ?g = "pp_define ''INCLUDED_H_DEFINE_H'' (Obj []) e"
  have gn: "?g n = e n" using g by (simp add: pp_define_def)
  have h: "h_define e n =
      (if pp_defined ''INCLUDED_H_DEFINE_H'' e \<or> pp_defined n e then e n else Some (Obj v))"
    by (simp add: h_define_def b pp_defined_def gn)
  have i: "force_lock (force_seek (force_lock (force_seek e))) n = force_lock (force_seek e) n"
    by (simp add: f pp_defined_def)
  from h i show ?thesis
    by (simp add: h_define_idem)
qed

subsection \<open>The simple macros: comparisons, negation and values\<close>







lemma c_cond_same: "c_unsigned x = c_unsigned y \<Longrightarrow> c_cond p x y = (if p then x else y)"
  by (cases x; cases y) (simp_all add: c_cond_def c_common_def)

lemma c_lt_zero: "c_lt a (CInt 0) \<longleftrightarrow> c_val a < 0"
proof (cases a)
  case (CInt w)
  then show ?thesis by (simp add: c_lt_def)
next
  case (CUInt w)
  then show ?thesis by (simp add: c_lt_def)
qed

lemma c_ne_zero: "c_ne a (CInt 0) \<longleftrightarrow> c_val a \<noteq> 0"
  by (cases a) (simp_all add: c_ne_def signed_eq_0_iff uint_0_iff)

lemma c_unsigned_neg: "c_unsigned (c_neg a) = c_unsigned a"
  by (cases a) simp_all

lemma ABS_unfold: "ABS a = (if c_val a < 0 then c_neg a else a)"
  by (simp add: ABS_def c_cond_same c_unsigned_neg c_lt_zero)

lemma SGN_unfold: "SGN a = CInt (if c_val a < 0 then - 1 else if c_val a \<noteq> 0 then 1 else 0)"
  by (simp add: SGN_def c_cond_same c_truth_def c_lt_zero c_ne_zero)

lemma sint_neg:
  assumes "w \<noteq> - 2147483648"
  shows "sint (- w) = - sint (w :: 32 word)"
proof -
  have "sint w \<noteq> - 2147483648"
  proof
    assume "sint w = - 2147483648"
    then have "(word_of_int (sint w) :: 32 word) = word_of_int (- 2147483648)"
      by simp
    then have "w = - 2147483648"
      by simp
    with assms show False
      by simp
  qed
  moreover have "- 2147483648 \<le> sint w" and "sint w < 2147483648"
    using sint_ge [of w] sint_lt [of w] by simp_all
  ultimately have "- 2147483648 \<le> - sint w \<and> - sint w < 2147483648"
    by linarith
  then show ?thesis
    by (simp add: sint_word_minus signed_take_bit_int_eq_self_iff)
qed

lemma c_val_neg: "a \<noteq> CInt (- 2147483648) \<Longrightarrow> c_val a < 0 \<Longrightarrow> c_val (c_neg a) = - c_val a"
proof (cases a)
  case (CInt w)
  assume "a \<noteq> CInt (- 2147483648)"
  with CInt have "w \<noteq> - 2147483648" by simp
  with CInt show ?thesis by (simp add: sint_neg)
next
  case (CUInt w)
  assume "c_val a < 0"
  with CUInt show ?thesis by simp
qed

lemma ABS_val:
  "a \<noteq> CInt (- 2147483648) \<Longrightarrow> c_val (ABS a) = (if c_val a < 0 then - c_val a else c_val a)"
  by (simp add: ABS_unfold c_val_neg)

lemma SGN_val: "c_val (SGN a) = (if c_val a < 0 then - 1 else if c_val a \<noteq> 0 then 1 else 0)"
  by (simp add: SGN_unfold)


subsection \<open>The mask of KTRL\<close>

lemma KTRL_mod: "KTRL c = c mod 32"
proof -
  have "c AND 0x1F = c AND mask 5"
    by (simp add: mask_eq_exp_minus_1)
  then show ?thesis
    by (simp add: KTRL_def flip: take_bit_eq_mask add: take_bit_eq_mod)
qed

section \<open>The multi-user flag and the platform flag\<close>

text \<open>
  C1, as amended. For every build, when \<^verbatim>\<open>h-config.h\<close> is read for the first time:
  \<^verbatim>\<open>SET_UID\<close> is defined afterwards if and only if \<^verbatim>\<open>WINDOWS\<close> is not defined or the
  build had defined \<^verbatim>\<open>SET_UID\<close> itself. So \<^verbatim>\<open>SET_UID\<close> is defined if and only if
  \<^verbatim>\<open>WINDOWS\<close> is not, after \<^verbatim>\<open>h-config.h\<close>, in every build but those that define
  \<^verbatim>\<open>SET_UID\<close> themselves on a Windows target, and in none of those. After
  \<^verbatim>\<open>h-system.h\<close> (read for the first time, with system headers that leave \<^verbatim>\<open>SET_UID\<close>,
  \<^verbatim>\<open>WINDOWS\<close> and \<^verbatim>\<open>_MSC_VER\<close> alone) it holds in every build but those that define
  \<^verbatim>\<open>SET_UID\<close> themselves on a Windows target whose compiler is not \<^verbatim>\<open>_MSC_VER\<close>: under
  \<^verbatim>\<open>_MSC_VER\<close> the demotion restores it. And \<^verbatim>\<open>h-system.h\<close> never breaks it where it
  held before.
\<close>

theorem SET_UID_iff_not_WINDOWS:
  assumes "\<not> pp_defined ''INCLUDED_H_CONFIG_H'' e"
    and "sys_keeps_flags sys"
  shows "(pp_defined ''SET_UID'' (h_config e) \<longleftrightarrow>
            \<not> pp_defined ''WINDOWS'' (h_config e) \<or> pp_defined ''SET_UID'' e)
       \<and> ((pp_defined ''SET_UID'' (h_config e) \<longleftrightarrow> \<not> pp_defined ''WINDOWS'' (h_config e)) \<longleftrightarrow>
            \<not> (pp_defined ''SET_UID'' e \<and> pp_defined ''WINDOWS'' (h_config e)))
       \<and> (\<not> pp_defined ''INCLUDED_H_SYSTEM_H'' e \<longrightarrow>
            ((pp_defined ''SET_UID'' (h_system sys (h_config e)) \<longleftrightarrow>
                \<not> pp_defined ''WINDOWS'' (h_system sys (h_config e))) \<longleftrightarrow>
             \<not> (pp_defined ''SET_UID'' e \<and> pp_defined ''WINDOWS'' (h_config e)
                 \<and> \<not> pp_defined ''_MSC_VER'' e)))
       \<and> ((pp_defined ''SET_UID'' (h_config e) \<longleftrightarrow> \<not> pp_defined ''WINDOWS'' (h_config e)) \<longrightarrow>
            (pp_defined ''SET_UID'' (h_system sys (h_config e)) \<longleftrightarrow>
               \<not> pp_defined ''WINDOWS'' (h_system sys (h_config e))))"
proof -
  let ?c = "h_config e"
  have a: "pp_defined ''SET_UID'' ?c \<longleftrightarrow> \<not> pp_defined ''WINDOWS'' ?c \<or> pp_defined ''SET_UID'' e"
    using assms(1) by (rule h_config_defined_SET_UID)
  have m: "pp_defined ''_MSC_VER'' ?c = pp_defined ''_MSC_VER'' e"
    and g: "pp_defined ''INCLUDED_H_SYSTEM_H'' ?c = pp_defined ''INCLUDED_H_SYSTEM_H'' e"
    by (simp_all add: pp_defined_def h_config_other)
  have b: "(pp_defined ''SET_UID'' ?c \<longleftrightarrow> \<not> pp_defined ''WINDOWS'' ?c) \<longleftrightarrow>
            \<not> (pp_defined ''SET_UID'' e \<and> pp_defined ''WINDOWS'' ?c)"
    using a by blast
  have c: "(pp_defined ''SET_UID'' (h_system sys ?c) \<longleftrightarrow> \<not> pp_defined ''WINDOWS'' (h_system sys ?c))
      \<longleftrightarrow> \<not> (pp_defined ''SET_UID'' e \<and> pp_defined ''WINDOWS'' ?c \<and> \<not> pp_defined ''_MSC_VER'' e)"
    if "\<not> pp_defined ''INCLUDED_H_SYSTEM_H'' e"
  proof -
    from that g have "\<not> pp_defined ''INCLUDED_H_SYSTEM_H'' ?c"
      by simp
    note s = h_system_defined_flags [OF assms(2) this]
    show ?thesis
      unfolding s m using a by blast
  qed
  have d: "pp_defined ''SET_UID'' (h_system sys ?c) \<longleftrightarrow> \<not> pp_defined ''WINDOWS'' (h_system sys ?c)"
    if "pp_defined ''SET_UID'' ?c \<longleftrightarrow> \<not> pp_defined ''WINDOWS'' ?c"
    using assms(2) that by (rule h_system_preserves)
  from a b c d show ?thesis
    by blast
qed

text \<open>
  The Microsoft compiler called with \<^verbatim>\<open>-DSET_UID\<close>: both flags are defined after
  \<^verbatim>\<open>h-config.h\<close>, and the demotion in \<^verbatim>\<open>h-system.h\<close> removes \<^verbatim>\<open>SET_UID\<close>. A Linux
  compiler called with \<^verbatim>\<open>-DSET_UID\<close>: \<^verbatim>\<open>SET_UID\<close> is defined and \<^verbatim>\<open>WINDOWS\<close> is not,
  after either header.
\<close>

theorem SET_UID_iff_not_WINDOWS_witness:
  "\<not> pp_defined ''INCLUDED_H_CONFIG_H'' build_msvc_set_uid
   \<and> \<not> pp_defined ''INCLUDED_H_SYSTEM_H'' build_msvc_set_uid
   \<and> sys_keeps_flags sys_silent
   \<and> pp_defined ''SET_UID'' build_msvc_set_uid \<and> pp_defined ''_MSC_VER'' build_msvc_set_uid
   \<and> pp_defined ''SET_UID'' (h_config build_msvc_set_uid)
   \<and> pp_defined ''WINDOWS'' (h_config build_msvc_set_uid)
   \<and> \<not> pp_defined ''SET_UID'' (h_system sys_silent (h_config build_msvc_set_uid))
   \<and> pp_defined ''WINDOWS'' (h_system sys_silent (h_config build_msvc_set_uid))
   \<and> \<not> pp_defined ''INCLUDED_H_CONFIG_H'' build_linux_set_uid
   \<and> \<not> pp_defined ''INCLUDED_H_SYSTEM_H'' build_linux_set_uid
   \<and> sys_keeps_flags sys_linux
   \<and> pp_defined ''SET_UID'' build_linux_set_uid
   \<and> pp_defined ''SET_UID'' (h_config build_linux_set_uid)
   \<and> \<not> pp_defined ''WINDOWS'' (h_config build_linux_set_uid)
   \<and> pp_defined ''SET_UID'' (h_system sys_linux (h_config build_linux_set_uid))
   \<and> \<not> pp_defined ''WINDOWS'' (h_system sys_linux (h_config build_linux_set_uid))"
proof -
  have m: "\<not> pp_defined ''INCLUDED_H_CONFIG_H'' build_msvc_set_uid"
    "\<not> pp_defined ''INCLUDED_H_SYSTEM_H'' build_msvc_set_uid"
    "pp_defined ''SET_UID'' build_msvc_set_uid" "pp_defined ''_MSC_VER'' build_msvc_set_uid"
    by (simp_all add: build_msvc_set_uid_simps pp_defined_def)
  have l: "\<not> pp_defined ''INCLUDED_H_CONFIG_H'' build_linux_set_uid"
    "\<not> pp_defined ''INCLUDED_H_SYSTEM_H'' build_linux_set_uid"
    "pp_defined ''SET_UID'' build_linux_set_uid" "\<not> pp_defined ''_MSC_VER'' build_linux_set_uid"
    by (simp_all add: build_linux_set_uid_simps pp_defined_def)
  have wm: "pp_defined ''WINDOWS'' (h_config build_msvc_set_uid)"
    using m(1) by (simp add: h_config_WINDOWS pp_defined_def build_msvc_set_uid_simps)
  have wl: "\<not> pp_defined ''WINDOWS'' (h_config build_linux_set_uid)"
    using l(1) by (simp add: h_config_WINDOWS pp_defined_def build_linux_set_uid_simps)
  note tm = SET_UID_iff_not_WINDOWS [OF m(1) sys_silent_keeps_flags]
  note tl = SET_UID_iff_not_WINDOWS [OF l(1) sys_linux_keeps_flags]
  from tm [THEN conjunct1] m(3)
  have sm: "pp_defined ''SET_UID'' (h_config build_msvc_set_uid)"
    by simp
  from tl [THEN conjunct1] l(3)
  have sl: "pp_defined ''SET_UID'' (h_config build_linux_set_uid)"
    by simp
  from tm [THEN conjunct2, THEN conjunct2, THEN conjunct1] m(2)
  have "(pp_defined ''SET_UID'' (h_system sys_silent (h_config build_msvc_set_uid)) \<longleftrightarrow>
          \<not> pp_defined ''WINDOWS'' (h_system sys_silent (h_config build_msvc_set_uid))) \<longleftrightarrow>
        \<not> (pp_defined ''SET_UID'' build_msvc_set_uid
           \<and> pp_defined ''WINDOWS'' (h_config build_msvc_set_uid)
           \<and> \<not> pp_defined ''_MSC_VER'' build_msvc_set_uid)"
    by (rule mp)
  with m(4) have em: "pp_defined ''SET_UID'' (h_system sys_silent (h_config build_msvc_set_uid)) \<longleftrightarrow>
          \<not> pp_defined ''WINDOWS'' (h_system sys_silent (h_config build_msvc_set_uid))"
    by simp
  from tl [THEN conjunct2, THEN conjunct2, THEN conjunct1] l(2)
  have "(pp_defined ''SET_UID'' (h_system sys_linux (h_config build_linux_set_uid)) \<longleftrightarrow>
          \<not> pp_defined ''WINDOWS'' (h_system sys_linux (h_config build_linux_set_uid))) \<longleftrightarrow>
        \<not> (pp_defined ''SET_UID'' build_linux_set_uid
           \<and> pp_defined ''WINDOWS'' (h_config build_linux_set_uid)
           \<and> \<not> pp_defined ''_MSC_VER'' build_linux_set_uid)"
    by (rule mp)
  with wl have el: "pp_defined ''SET_UID'' (h_system sys_linux (h_config build_linux_set_uid)) \<longleftrightarrow>
          \<not> pp_defined ''WINDOWS'' (h_system sys_linux (h_config build_linux_set_uid))"
    by simp
  have "h_config build_msvc_set_uid ''INCLUDED_H_SYSTEM_H'' = None"
    by (simp add: h_config_other build_msvc_set_uid_simps)
  with wm have wm': "pp_defined ''WINDOWS'' (h_system sys_silent (h_config build_msvc_set_uid))"
    by (simp add: h_system_WINDOWS pp_defined_def sys_silent_keeps_flags)
  have "h_config build_linux_set_uid ''INCLUDED_H_SYSTEM_H'' = None"
    and "h_config build_linux_set_uid ''_MSC_VER'' = None"
    by (simp_all add: h_config_other build_linux_set_uid_simps)
  with wl have wl': "\<not> pp_defined ''WINDOWS'' (h_system sys_linux (h_config build_linux_set_uid))"
    by (simp add: h_system_WINDOWS pp_defined_def sys_linux_keeps_flags)
  from em wm' have sm': "\<not> pp_defined ''SET_UID'' (h_system sys_silent (h_config build_msvc_set_uid))"
    by simp
  from el wl' have sl': "pp_defined ''SET_UID'' (h_system sys_linux (h_config build_linux_set_uid))"
    by simp
  from m l sys_silent_keeps_flags sys_linux_keeps_flags wm wl sm sl wm' wl' sm' sl'
  show ?thesis
    by (intro conjI)
qed

text \<open>
  C1 as stated, for every build, fails where the build defines \<^verbatim>\<open>SET_UID\<close> itself on
  a Windows target whose compiler is not \<^verbatim>\<open>_MSC_VER\<close>: lines 36--38 of \<^verbatim>\<open>h-config.h\<close>
  only ever define \<^verbatim>\<open>SET_UID\<close>, and \<^verbatim>\<open>h-system.h\<close> removes it for \<^verbatim>\<open>_MSC_VER\<close>
  only. Both flags are defined after either header.
\<close>

theorem SET_UID_with_WINDOWS_counterexample:
  "\<not> (pp_defined ''SET_UID'' (h_config build_mingw_set_uid) \<longleftrightarrow>
        \<not> pp_defined ''WINDOWS'' (h_config build_mingw_set_uid))
   \<and> \<not> (pp_defined ''SET_UID'' (h_system sys_silent (h_config build_mingw_set_uid)) \<longleftrightarrow>
        \<not> pp_defined ''WINDOWS'' (h_system sys_silent (h_config build_mingw_set_uid)))"
proof -
  let ?c = "h_config build_mingw_set_uid"
  have g: "\<not> pp_defined ''INCLUDED_H_CONFIG_H'' build_mingw_set_uid"
    by (simp add: build_mingw_set_uid_simps pp_defined_def)
  have w: "?c ''WINDOWS'' = Some (Obj [])"
    using g by (simp add: h_flag_simps build_mingw_set_uid_simps)
  have s: "?c ''SET_UID'' = Some (Obj ''1'')"
    using g w by (simp add: h_flag_simps build_mingw_set_uid_simps)
  have m: "?c ''_MSC_VER'' = None" and i: "?c ''INCLUDED_H_SYSTEM_H'' = None"
    by (simp_all add: h_config_other build_mingw_set_uid_simps)
  have "h_system sys_silent ?c ''SET_UID'' = Some (Obj ''1'')"
    and "h_system sys_silent ?c ''WINDOWS'' = Some (Obj [])"
    using w s m i by (simp_all add: h_flag_simps sys_silent_keeps_flags)
  with w s show ?thesis
    by (simp add: pp_defined_def)
qed

section \<open>The path separator\<close>

text \<open>
  C2. Lines 45--46 install \<^verbatim>\<open>"/"\<close> as \<^verbatim>\<open>PATH_SEP\<close> whatever was defined before;
  lines 47--50 replace it by \<^verbatim>\<open>"\\"\<close> under \<^verbatim>\<open>WINDOWS\<close>, whatever \<^verbatim>\<open>PATH_SEP\<close> was,
  and do nothing otherwise. So after \<^verbatim>\<open>h-config.h\<close> (read for the first time)
  \<^verbatim>\<open>PATH_SEP\<close> is the literal \<^verbatim>\<open>"\\"\<close> if \<^verbatim>\<open>WINDOWS\<close> is defined and \<^verbatim>\<open>"/"\<close> if
  not; each literal denotes a string of one character.
\<close>

theorem PATH_SEP_resolves:
  "path_sep_default e ''PATH_SEP'' = Some (Obj [CHR 0x22, CHR ''/'', CHR 0x22])
   \<and> (pp_defined ''WINDOWS'' e \<longrightarrow>
        path_sep_windows e ''PATH_SEP'' = Some (Obj [CHR 0x22, CHR 0x5C, CHR 0x5C, CHR 0x22]))
   \<and> (\<not> pp_defined ''WINDOWS'' e \<longrightarrow> path_sep_windows e = e)
   \<and> (\<not> pp_defined ''INCLUDED_H_CONFIG_H'' e \<longrightarrow>
        h_config e ''PATH_SEP'' =
          Some (Obj (if pp_defined ''WINDOWS'' (h_config e)
                     then [CHR 0x22, CHR 0x5C, CHR 0x5C, CHR 0x22]
                     else [CHR 0x22, CHR ''/'', CHR 0x22])))
   \<and> c_string_literal [CHR 0x22, CHR 0x5C, CHR 0x5C, CHR 0x22] = Some [CHR 0x5C]
   \<and> c_string_literal [CHR 0x22, CHR ''/'', CHR 0x22] = Some ''/''"
proof -
  have 1: "path_sep_default e ''PATH_SEP'' = Some (Obj [CHR 0x22, CHR ''/'', CHR 0x22])"
    by (simp add: path_sep_default_def pp_defs)
  have 2: "pp_defined ''WINDOWS'' e \<longrightarrow>
        path_sep_windows e ''PATH_SEP'' = Some (Obj [CHR 0x22, CHR 0x5C, CHR 0x5C, CHR 0x22])"
    by (simp add: path_sep_windows_def pp_defs)
  have 3: "\<not> pp_defined ''WINDOWS'' e \<longrightarrow> path_sep_windows e = e"
    by (simp add: path_sep_windows_def)
  have 4: "\<not> pp_defined ''INCLUDED_H_CONFIG_H'' e \<longrightarrow>
        h_config e ''PATH_SEP'' =
          Some (Obj (if pp_defined ''WINDOWS'' (h_config e)
                     then [CHR 0x22, CHR 0x5C, CHR 0x5C, CHR 0x22]
                     else [CHR 0x22, CHR ''/'', CHR 0x22]))"
  proof
    assume "\<not> pp_defined ''INCLUDED_H_CONFIG_H'' e"
    then have c: "h_config e = h_config_body (pp_define ''INCLUDED_H_CONFIG_H'' (Obj []) e)"
      by (rule h_config_first)
    show "h_config e ''PATH_SEP'' =
          Some (Obj (if pp_defined ''WINDOWS'' (h_config e)
                     then [CHR 0x22, CHR 0x5C, CHR 0x5C, CHR 0x22]
                     else [CHR 0x22, CHR ''/'', CHR 0x22]))"
      unfolding c by (rule h_config_body_PATH_SEP)
  qed
  have 5: "c_string_literal [CHR 0x22, CHR 0x5C, CHR 0x5C, CHR 0x22] = Some [CHR 0x5C]"
    by (simp add: c_string_literal_def)
  have 6: "c_string_literal [CHR 0x22, CHR ''/'', CHR 0x22] = Some ''/''"
    by (simp add: c_string_literal_def)
  from 1 2 3 4 5 6 show ?thesis by blast
qed

text \<open>
  The Microsoft compiler, a Linux compiler, and the two segments on a table where
  \<^verbatim>\<open>WINDOWS\<close> is defined.
\<close>

theorem PATH_SEP_resolves_witness:
  "h_config build_msvc ''PATH_SEP'' = Some (Obj [CHR 0x22, CHR 0x5C, CHR 0x5C, CHR 0x22])
   \<and> h_config build_linux ''PATH_SEP'' = Some (Obj [CHR 0x22, CHR ''/'', CHR 0x22])
   \<and> pp_defined ''WINDOWS'' (h_config build_msvc)
   \<and> \<not> pp_defined ''WINDOWS'' (h_config build_linux)
   \<and> path_sep_windows (path_sep_default (pp_define ''WINDOWS'' (Obj []) build_linux)) ''PATH_SEP''
       = Some (Obj [CHR 0x22, CHR 0x5C, CHR 0x5C, CHR 0x22])"
proof -
  have m: "\<not> pp_defined ''INCLUDED_H_CONFIG_H'' build_msvc"
    and l: "\<not> pp_defined ''INCLUDED_H_CONFIG_H'' build_linux"
    by (simp_all add: build_msvc_simps build_linux_simps pp_defined_def)
  have wm: "pp_defined ''WINDOWS'' (h_config build_msvc)"
    using m by (simp add: h_flag_simps build_msvc_simps)
  have wl: "\<not> pp_defined ''WINDOWS'' (h_config build_linux)"
    using l by (simp add: h_flag_simps build_linux_simps)
  have wd: "pp_defined ''WINDOWS'' (path_sep_default (pp_define ''WINDOWS'' (Obj []) build_linux))"
    by (simp add: path_sep_default_other pp_defs)
  from PATH_SEP_resolves [of build_msvc] PATH_SEP_resolves [of build_linux]
    PATH_SEP_resolves [of "path_sep_default (pp_define ''WINDOWS'' (Obj []) build_linux)"]
    m l wm wl wd
  show ?thesis by simp
qed

section \<open>The optional capability flag\<close>

text \<open>
  C3. \<^verbatim>\<open>h-config.h\<close> (read for the first time) defines \<^verbatim>\<open>HAVE_USLEEP\<close> exactly when
  \<^verbatim>\<open>SET_UID\<close> is defined and \<^verbatim>\<open>HAVE_CONFIG_H\<close> is not; otherwise it leaves the name
  as it found it. Where \<^verbatim>\<open>HAVE_USLEEP\<close> was not defined before, it is defined afterwards
  if and only if \<^verbatim>\<open>SET_UID\<close> is defined and \<^verbatim>\<open>HAVE_CONFIG_H\<close> is not: never without
  \<^verbatim>\<open>SET_UID\<close>, whatever \<^verbatim>\<open>HAVE_CONFIG_H\<close> says.
\<close>

theorem HAVE_USLEEP_derivation:
  assumes "\<not> pp_defined ''INCLUDED_H_CONFIG_H'' e"
  shows "h_config e ''HAVE_USLEEP'' =
           (if pp_defined ''SET_UID'' (h_config e) \<and> \<not> pp_defined ''HAVE_CONFIG_H'' (h_config e)
            then Some (Obj []) else e ''HAVE_USLEEP'')
       \<and> (\<not> pp_defined ''HAVE_USLEEP'' e \<longrightarrow>
            (pp_defined ''HAVE_USLEEP'' (h_config e) \<longleftrightarrow>
               pp_defined ''SET_UID'' (h_config e) \<and> \<not> pp_defined ''HAVE_CONFIG_H'' (h_config e)))
       \<and> (pp_defined ''HAVE_CONFIG_H'' (h_config e) \<longleftrightarrow> pp_defined ''HAVE_CONFIG_H'' e)"
proof -
  let ?g = "pp_define ''INCLUDED_H_CONFIG_H'' (Obj []) e"
  have c: "h_config e = h_config_body ?g"
    using assms by (rule h_config_first)
  have g: "pp_defined ''HAVE_CONFIG_H'' ?g = pp_defined ''HAVE_CONFIG_H'' e"
    "?g ''HAVE_USLEEP'' = e ''HAVE_USLEEP''"
    by (simp_all add: pp_defs)
  have k: "pp_defined ''HAVE_CONFIG_H'' (h_config e) \<longleftrightarrow> pp_defined ''HAVE_CONFIG_H'' e"
    by (simp add: c pp_defined_def h_config_body_HAVE_CONFIG_H pp_define_def)
  have u: "h_config e ''HAVE_USLEEP'' =
           (if pp_defined ''SET_UID'' (h_config e) \<and> \<not> pp_defined ''HAVE_CONFIG_H'' (h_config e)
            then Some (Obj []) else e ''HAVE_USLEEP'')"
    unfolding k unfolding c by (simp only: h_config_body_HAVE_USLEEP g)
  from u have "\<not> pp_defined ''HAVE_USLEEP'' e \<longrightarrow>
            (pp_defined ''HAVE_USLEEP'' (h_config e) \<longleftrightarrow>
               pp_defined ''SET_UID'' (h_config e) \<and> \<not> pp_defined ''HAVE_CONFIG_H'' (h_config e))"
    by (simp add: pp_defined_def)
  with u k show ?thesis by blast
qed

text \<open>
  Linux without and with \<^verbatim>\<open>HAVE_CONFIG_H\<close>, and the Microsoft compiler.
\<close>

theorem HAVE_USLEEP_derivation_witness:
  "\<not> pp_defined ''INCLUDED_H_CONFIG_H'' build_linux
   \<and> h_config build_linux ''HAVE_USLEEP'' = Some (Obj [])
   \<and> pp_defined ''SET_UID'' (h_config build_linux)
   \<and> \<not> pp_defined ''HAVE_USLEEP'' (h_config (pp_define ''HAVE_CONFIG_H'' (Obj ''1'') build_linux))
   \<and> pp_defined ''SET_UID'' (h_config (pp_define ''HAVE_CONFIG_H'' (Obj ''1'') build_linux))
   \<and> \<not> pp_defined ''HAVE_USLEEP'' (h_config build_msvc)
   \<and> \<not> pp_defined ''SET_UID'' (h_config build_msvc)"
proof -
  let ?a = "pp_define ''HAVE_CONFIG_H'' (Obj ''1'') build_linux"
  have g: "\<not> pp_defined ''INCLUDED_H_CONFIG_H'' build_linux"
    "\<not> pp_defined ''INCLUDED_H_CONFIG_H'' ?a"
    "\<not> pp_defined ''INCLUDED_H_CONFIG_H'' build_msvc"
    by (simp_all add: build_msvc_simps build_linux_simps pp_defs)
  have s: "pp_defined ''SET_UID'' (h_config build_linux)"
    "pp_defined ''SET_UID'' (h_config ?a)"
    "\<not> pp_defined ''SET_UID'' (h_config build_msvc)"
    using g by (simp_all add: h_flag_simps build_msvc_simps build_linux_simps pp_define_def)
  have c: "\<not> pp_defined ''HAVE_CONFIG_H'' build_linux" "pp_defined ''HAVE_CONFIG_H'' ?a"
    "?a ''HAVE_USLEEP'' = None" "build_msvc ''HAVE_USLEEP'' = None"
    by (simp_all add: build_msvc_simps build_linux_simps pp_defs)
  from HAVE_USLEEP_derivation [OF g(1)] HAVE_USLEEP_derivation [OF g(2)]
    HAVE_USLEEP_derivation [OF g(3)] g s c
  show ?thesis by (simp add: pp_defined_def)
qed

section \<open>The demotion under the Microsoft compiler\<close>

text \<open>
  C5. Where \<^verbatim>\<open>SET_UID\<close> and \<^verbatim>\<open>_MSC_VER\<close> are both defined when \<^verbatim>\<open>h-system.h\<close> is
  read (for the first time, with system headers that leave the three flags alone), the
  header includes none of the POSIX headers of lines 45--54; it defines \<^verbatim>\<open>WINDOWS\<close>
  unless it is defined already, in which case its definition stays, and it removes
  \<^verbatim>\<open>SET_UID\<close>. Afterwards \<^verbatim>\<open>SET_UID\<close> is not defined and \<^verbatim>\<open>WINDOWS\<close> is.
\<close>

theorem MSC_VER_demotes_SET_UID:
  assumes "sys_keeps_flags sys"
    and "\<not> pp_defined ''INCLUDED_H_SYSTEM_H'' e"
    and "pp_defined ''SET_UID'' e"
    and "pp_defined ''_MSC_VER'' e"
  shows "\<not> pp_defined ''SET_UID'' (h_system sys e) \<and> pp_defined ''WINDOWS'' (h_system sys e)
       \<and> h_system sys e ''WINDOWS'' =
           (if pp_defined ''WINDOWS'' e then e ''WINDOWS'' else Some (Obj []))
       \<and> include_set_uid sys e = sys ''sys/stat.h'' (demote_to_windows e)"
proof -
  have s: "h_system sys e ''SET_UID'' = None"
    using assms by (simp add: h_system_SET_UID)
  have w: "h_system sys e ''WINDOWS'' =
           (if pp_defined ''WINDOWS'' e then e ''WINDOWS'' else Some (Obj []))"
    using assms by (simp add: h_system_WINDOWS)
  have i: "include_set_uid sys e = sys ''sys/stat.h'' (demote_to_windows e)"
    using assms(3,4) by (simp add: include_set_uid_def)
  from s w i show ?thesis
    by (simp add: pp_defined_def)
qed

text \<open>The Microsoft compiler called with \<^verbatim>\<open>-DSET_UID\<close>, before any header.\<close>

theorem MSC_VER_demotes_SET_UID_witness:
  "sys_keeps_flags sys_silent
   \<and> \<not> pp_defined ''INCLUDED_H_SYSTEM_H'' build_msvc_set_uid
   \<and> pp_defined ''SET_UID'' build_msvc_set_uid \<and> pp_defined ''_MSC_VER'' build_msvc_set_uid
   \<and> \<not> pp_defined ''WINDOWS'' build_msvc_set_uid
   \<and> \<not> pp_defined ''SET_UID'' (h_system sys_silent build_msvc_set_uid)
   \<and> h_system sys_silent build_msvc_set_uid ''WINDOWS'' = Some (Obj [])"
proof -
  have a: "\<not> pp_defined ''INCLUDED_H_SYSTEM_H'' build_msvc_set_uid"
    and b: "pp_defined ''SET_UID'' build_msvc_set_uid"
    and c: "pp_defined ''_MSC_VER'' build_msvc_set_uid"
    and d: "\<not> pp_defined ''WINDOWS'' build_msvc_set_uid"
    by (simp_all add: build_msvc_set_uid_simps pp_defined_def)
  from MSC_VER_demotes_SET_UID [OF sys_silent_keeps_flags a b c] sys_silent_keeps_flags a b c d
  show ?thesis by simp
qed

section \<open>The fallback constants\<close>

text \<open>
  C4. For each of \<^verbatim>\<open>SEEK_SET\<close> = 0, \<^verbatim>\<open>SEEK_CUR\<close> = 1, \<^verbatim>\<open>SEEK_END\<close> = 2,
  \<^verbatim>\<open>F_UNLCK\<close> = 0, \<^verbatim>\<open>F_RDLCK\<close> = 1 and \<^verbatim>\<open>F_WRLCK\<close> = 2: \<^verbatim>\<open>h-define.h\<close> leaves a
  name that is already defined as it is; it defines a name that is not yet defined with
  its number (when the header is read for the first time); it changes the name in no
  other way; and reading the header a second time, or lines 20--41 a second time, gives
  the same definition again, whoever defined the name first.
\<close>

theorem fallback_constants_define_if_absent:
  "\<forall>(n, v) \<in> set [(''SEEK_SET'', ''0''), (''SEEK_CUR'', ''1''), (''SEEK_END'', ''2''),
                   (''F_UNLCK'', ''0''), (''F_RDLCK'', ''1''), (''F_WRLCK'', ''2'')].
     (pp_defined n e \<longrightarrow> h_define e n = e n)
     \<and> (\<not> pp_defined n e \<and> \<not> pp_defined ''INCLUDED_H_DEFINE_H'' e \<longrightarrow>
          h_define e n = Some (Obj v))
     \<and> (h_define e n \<noteq> e n \<longrightarrow> \<not> pp_defined n e \<and> h_define e n = Some (Obj v))
     \<and> h_define (h_define e) n = h_define e n
     \<and> force_lock (force_seek (force_lock (force_seek e))) n = force_lock (force_seek e) n"
proof -
  let ?Q = "\<lambda>n v. (pp_defined n e \<longrightarrow> h_define e n = e n)
     \<and> (\<not> pp_defined n e \<and> \<not> pp_defined ''INCLUDED_H_DEFINE_H'' e \<longrightarrow>
          h_define e n = Some (Obj v))
     \<and> (h_define e n \<noteq> e n \<longrightarrow> \<not> pp_defined n e \<and> h_define e n = Some (Obj v))
     \<and> h_define (h_define e) n = h_define e n
     \<and> force_lock (force_seek (force_lock (force_seek e))) n = force_lock (force_seek e) n"
  have 1: "?Q ''SEEK_SET'' ''0''"
    by (rule fallback_each) (simp, rule h_define_body_each, rule force_seek_lock_each)
  have 2: "?Q ''SEEK_CUR'' ''1''"
    by (rule fallback_each) (simp, rule h_define_body_each, rule force_seek_lock_each)
  have 3: "?Q ''SEEK_END'' ''2''"
    by (rule fallback_each) (simp, rule h_define_body_each, rule force_seek_lock_each)
  have 4: "?Q ''F_UNLCK'' ''0''"
    by (rule fallback_each) (simp, rule h_define_body_each, rule force_seek_lock_each)
  have 5: "?Q ''F_RDLCK'' ''1''"
    by (rule fallback_each) (simp, rule h_define_body_each, rule force_seek_lock_each)
  have 6: "?Q ''F_WRLCK'' ''2''"
    by (rule fallback_each) (simp, rule h_define_body_each, rule force_seek_lock_each)
  show ?thesis
    unfolding list.set ball_simps prod.case
    using 1 2 3 4 5 6 by blast
qed

text \<open>
  Linux's \<^verbatim>\<open>fcntl.h\<close> gives \<^verbatim>\<open>F_RDLCK\<close> the number 0, which stays; without the
  platform's header the name gets the number 1.
\<close>

theorem fallback_constants_define_if_absent_witness:
  "sys_linux ''fcntl.h'' (sys_linux ''stdio.h'' build_linux) ''F_RDLCK'' = Some (Obj ''0'')
   \<and> h_define (sys_linux ''fcntl.h'' (sys_linux ''stdio.h'' build_linux)) ''F_RDLCK''
       = Some (Obj ''0'')
   \<and> h_define (h_define (sys_linux ''fcntl.h'' (sys_linux ''stdio.h'' build_linux))) ''F_RDLCK''
       = Some (Obj ''0'')
   \<and> build_linux ''F_RDLCK'' = None
   \<and> h_define build_linux ''F_RDLCK'' = Some (Obj ''1'')
   \<and> h_define (h_define build_linux) ''F_RDLCK'' = Some (Obj ''1'')"
proof -
  let ?E = "sys_linux ''fcntl.h'' (sys_linux ''stdio.h'' build_linux)"
  have m: "(''F_RDLCK'', ''1'') \<in> set [(''SEEK_SET'', ''0''), (''SEEK_CUR'', ''1''),
      (''SEEK_END'', ''2''), (''F_UNLCK'', ''0''), (''F_RDLCK'', ''1''), (''F_WRLCK'', ''2'')]"
    by simp
  note platform = fallback_constants_define_if_absent [of ?E, THEN bspec, OF m, unfolded prod.case]
  note absent = fallback_constants_define_if_absent [of build_linux, THEN bspec, OF m,
      unfolded prod.case]
  have a: "?E ''F_RDLCK'' = Some (Obj ''0'')"
    by (simp add: sys_linux_def pp_define_def)
  then have "pp_defined ''F_RDLCK'' ?E"
    by (simp add: pp_defined_def)
  with platform [THEN conjunct1] have "h_define ?E ''F_RDLCK'' = ?E ''F_RDLCK''"
    by (rule mp)
  with a have p: "h_define ?E ''F_RDLCK'' = Some (Obj ''0'')"
    by simp
  have "h_define (h_define ?E) ''F_RDLCK'' = h_define ?E ''F_RDLCK''"
    by (rule platform [THEN conjunct2, THEN conjunct2, THEN conjunct2, THEN conjunct1])
  with p have p': "h_define (h_define ?E) ''F_RDLCK'' = Some (Obj ''0'')"
    by simp
  have b: "build_linux ''F_RDLCK'' = None"
    by (simp add: build_linux_simps)
  have "\<not> pp_defined ''F_RDLCK'' build_linux \<and> \<not> pp_defined ''INCLUDED_H_DEFINE_H'' build_linux"
    by (simp add: pp_defined_def build_linux_simps)
  with absent [THEN conjunct2, THEN conjunct1]
  have q: "h_define build_linux ''F_RDLCK'' = Some (Obj ''1'')"
    by (rule mp)
  have "h_define (h_define build_linux) ''F_RDLCK'' = h_define build_linux ''F_RDLCK''"
    by (rule absent [THEN conjunct2, THEN conjunct2, THEN conjunct2, THEN conjunct1])
  with q have q': "h_define (h_define build_linux) ''F_RDLCK'' = Some (Obj ''1'')"
    by simp
  from a p p' b q q' show ?thesis
    by (intro conjI)
qed

section \<open>The simple macros\<close>







section \<open>The character macros\<close>

text \<open>
  C8. \<^verbatim>\<open>A2I('a')\<close> = 0 and \<^verbatim>\<open>A2I('c')\<close> = 2. For every lowercase letter \<open>x\<close>,
  \<^verbatim>\<open>A2I(x)\<close> is an index from 0 to 25 and \<^verbatim>\<open>I2A(A2I(x))\<close> = \<open>x\<close>; for every index \<open>i\<close>
  from 0 to 25, \<^verbatim>\<open>I2A(i)\<close> is a lowercase letter and \<^verbatim>\<open>A2I(I2A(i))\<close> = \<open>i\<close>.
\<close>

theorem A2I_I2A_round_trip:
  "A2I (of_char (CHR ''a'')) = 0 \<and> A2I (of_char (CHR ''c'')) = 2
   \<and> (\<forall>x. of_char (CHR ''a'') \<le> x \<and> x \<le> of_char (CHR ''z'') \<longrightarrow>
          I2A (A2I x) = x \<and> 0 \<le> A2I x \<and> A2I x \<le> 25)
   \<and> (\<forall>i. 0 \<le> i \<and> i \<le> 25 \<longrightarrow>
          A2I (I2A i) = i \<and> of_char (CHR ''a'') \<le> I2A i \<and> I2A i \<le> of_char (CHR ''z''))"
  by (simp add: A2I_def I2A_def)

text \<open>The letter q and the last index.\<close>

theorem A2I_I2A_round_trip_witness:
  "I2A (A2I (of_char (CHR ''q''))) = of_char (CHR ''q'')
   \<and> 0 \<le> A2I (of_char (CHR ''q'')) \<and> A2I (of_char (CHR ''q'')) \<le> 25
   \<and> A2I (I2A 25) = 25
   \<and> of_char (CHR ''a'') \<le> I2A 25 \<and> I2A 25 \<le> of_char (CHR ''z'')"
proof -
  note letters = A2I_I2A_round_trip [THEN conjunct2, THEN conjunct2, THEN conjunct1, THEN spec,
      of "of_char (CHR ''q'')"]
  note indices = A2I_I2A_round_trip [THEN conjunct2, THEN conjunct2, THEN conjunct2, THEN spec,
      of 25]
  have "of_char (CHR ''a'') \<le> (of_char (CHR ''q'') :: int)
      \<and> (of_char (CHR ''q'') :: int) \<le> of_char (CHR ''z'')"
    by simp
  with letters have q: "I2A (A2I (of_char (CHR ''q''))) = of_char (CHR ''q'')
      \<and> 0 \<le> A2I (of_char (CHR ''q'')) \<and> A2I (of_char (CHR ''q'')) \<le> 25"
    by (rule mp)
  have "(0::int) \<le> 25 \<and> (25::int) \<le> 25"
    by simp
  with indices have i: "A2I (I2A 25) = 25
      \<and> of_char (CHR ''a'') \<le> I2A 25 \<and> I2A 25 \<le> of_char (CHR ''z'')"
    by (rule mp)
  from q i show ?thesis
    by blast
qed

text \<open>
  C9. \<^verbatim>\<open>KTRL('A')\<close> = 1. \<^verbatim>\<open>KTRL\<close> keeps the low 5 bits of a code and \<^verbatim>\<open>UN_KTRL\<close>
  adds 64; for every code \<open>c\<close> from 64 (\<^verbatim>\<open>'@'\<close>) to 95 (\<^verbatim>\<open>'_'\<close>),
  \<^verbatim>\<open>UN_KTRL(KTRL(c))\<close> = \<open>c\<close>, and \<^verbatim>\<open>KTRL(c)\<close> is a control code from 0 to 31.
\<close>

theorem KTRL_UN_KTRL_round_trip:
  "KTRL (of_char (CHR ''A'')) = 1
   \<and> KTRL c = c mod 2 ^ 5 \<and> UN_KTRL c = c + 64
   \<and> (\<forall>c. 64 \<le> c \<and> c \<le> 95 \<longrightarrow> UN_KTRL (KTRL c) = c \<and> 0 \<le> KTRL c \<and> KTRL c < 32)"
proof -
  have "UN_KTRL (KTRL x) = x" if "64 \<le> x" "x \<le> 95" for x
  proof -
    from that have "x mod 32 = x - 64"
      by presburger
    then show ?thesis
      by (simp add: UN_KTRL_def KTRL_mod)
  qed
  moreover have "0 \<le> KTRL x \<and> KTRL x < 32" for x
    by (simp add: KTRL_mod)
  ultimately show ?thesis
    by (simp add: KTRL_mod UN_KTRL_def)
qed

text \<open>The letter M, and both ends of the range.\<close>

theorem KTRL_UN_KTRL_round_trip_witness:
  "UN_KTRL (KTRL (of_char (CHR ''M''))) = of_char (CHR ''M'')
   \<and> 0 \<le> KTRL (of_char (CHR ''M'')) \<and> KTRL (of_char (CHR ''M'')) < 32
   \<and> UN_KTRL (KTRL 64) = 64 \<and> UN_KTRL (KTRL 95) = 95"
proof -
  note range = KTRL_UN_KTRL_round_trip [of 0, THEN conjunct2, THEN conjunct2, THEN conjunct2]
  have "(64::int) \<le> of_char (CHR ''M'') \<and> (of_char (CHR ''M'') :: int) \<le> 95"
    by simp
  with range [THEN spec, of "of_char (CHR ''M'')"]
  have m: "UN_KTRL (KTRL (of_char (CHR ''M''))) = of_char (CHR ''M'')
      \<and> 0 \<le> KTRL (of_char (CHR ''M'')) \<and> KTRL (of_char (CHR ''M'')) < 32"
    by (rule mp)
  have "(64::int) \<le> 64 \<and> (64::int) \<le> 95" and "(64::int) \<le> 95 \<and> (95::int) \<le> 95"
    by simp_all
  with range [THEN spec, of 64] range [THEN spec, of 95]
  have "UN_KTRL (KTRL 64) = 64" and "UN_KTRL (KTRL 95) = 95"
    by simp_all
  with m show ?thesis
    by blast
qed

section \<open>Sign and absolute value together\<close>

text \<open>
  C10. For every integer \<open>a\<close>, in exact arithmetic, \<^verbatim>\<open>SGN(a) * ABS(a)\<close> = \<open>a\<close>. The
  same holds of the numbers that \<^verbatim>\<open>SGN\<close> and \<^verbatim>\<open>ABS\<close> give for an \<^verbatim>\<open>int\<close> or
  \<^verbatim>\<open>unsigned int\<close> \<open>x\<close> other than the least \<^verbatim>\<open>int\<close>.
\<close>

theorem SGN_times_ABS:
  "SGN_exact a * ABS_exact a = a
   \<and> (x \<noteq> CInt (- 2147483648) \<longrightarrow> c_val (SGN x) * c_val (ABS x) = c_val x)"
proof -
  have "SGN_exact a * ABS_exact a = a"
    by (simp add: SGN_exact_def ABS_exact_def)
  moreover have "c_val (SGN x) * c_val (ABS x) = c_val x" if "x \<noteq> CInt (- 2147483648)"
    by (simp add: SGN_val ABS_val [OF that])
  ultimately show ?thesis
    by blast
qed

text \<open>A negative integer, exact and as an \<^verbatim>\<open>int\<close>.\<close>

theorem SGN_times_ABS_witness:
  "SGN_exact (- 6) * ABS_exact (- 6) = - 6
   \<and> CInt (- 6) \<noteq> CInt (- 2147483648)
   \<and> c_val (SGN (CInt (- 6))) * c_val (ABS (CInt (- 6))) = c_val (CInt (- 6))"
proof -
  have n: "CInt (- 6) \<noteq> CInt (- 2147483648)"
    by simp
  from SGN_times_ABS [of "- 6" "CInt (- 6)", THEN conjunct2] n
  have "c_val (SGN (CInt (- 6))) * c_val (ABS (CInt (- 6))) = c_val (CInt (- 6))"
    by (rule mp)
  with SGN_times_ABS [of "- 6" "CInt (- 6)", THEN conjunct1] n show ?thesis
    by (intro conjI)
qed

end
